theory Spec2Isabelle
  imports Complex_Main
begin

section \<open>JavaScript numbers\<close>

text \<open>
  The scale bar (\<^verbatim>\<open>src/neuroglancer/widget/scale_bar.ts\<close>) computes with JavaScript
  numbers. A number is modelled as a real, or one of the three special values that the
  program can produce and that decide its control flow: \<open>NaN\<close>, \<open>+Infinity\<close> and
  \<open>-Infinity\<close>. The special cases of every operator follow ECMAScript (a \<open>NaN\<close> operand
  gives \<open>NaN\<close>, \<open>0/0\<close> and \<open>Infinity - Infinity\<close> are \<open>NaN\<close>, every comparison with
  \<open>NaN\<close> is false, the logarithm of \<open>0\<close> is \<open>-Infinity\<close>, of a negative number \<open>NaN\<close>).
  \<open>+0\<close> and \<open>-0\<close> are one value \<open>Fin 0\<close>, which divides like \<open>+0\<close>.

  The program is embedded twice. The operators of this section compute exactly on
  finite values: no result is rounded, none overflows, and \<^verbatim>\<open>Math.log\<close> and
  \<^verbatim>\<open>Math.pow\<close> are the exact functions. The quantizer \<open>update\<close> built on them serves
  the properties of control flow, of special values and of single inputs at which
  rounding decides nothing. The section on binary64 arithmetic adds the rounding of
  IEEE 754 and the quantizer \<open>update64\<close> built on it, for the properties of arbitrary
  finite inputs.
\<close>

datatype jsnum = NaN | PInf | NInf | Fin real

fun is_neg :: "jsnum \<Rightarrow> bool" where
  "is_neg NInf = True"
| "is_neg (Fin a) = (a < 0)"
| "is_neg _ = False"

fun is_zero :: "jsnum \<Rightarrow> bool" where
  "is_zero (Fin a) = (a = 0)"
| "is_zero _ = False"

fun is_inf :: "jsnum \<Rightarrow> bool" where
  "is_inf PInf = True"
| "is_inf NInf = True"
| "is_inf _ = False"

definition signed_inf :: "bool \<Rightarrow> jsnum" where
  "signed_inf negative = (if negative then NInf else PInf)"

text \<open>Strict equality \<^verbatim>\<open>===\<close> on numbers: \<open>NaN\<close> equals nothing, itself included.\<close>

fun js_seq :: "jsnum \<Rightarrow> jsnum \<Rightarrow> bool" where
  "js_seq NaN _ = False"
| "js_seq _ NaN = False"
| "js_seq x y = (x = y)"

text \<open>The relational operators \<^verbatim>\<open><\<close> and \<^verbatim>\<open>>=\<close>: false when an operand is \<open>NaN\<close>.\<close>

fun js_lt :: "jsnum \<Rightarrow> jsnum \<Rightarrow> bool" where
  "js_lt NaN _ = False"
| "js_lt _ NaN = False"
| "js_lt (Fin a) (Fin b) = (a < b)"
| "js_lt NInf y = (y \<noteq> NInf)"
| "js_lt x PInf = (x \<noteq> PInf)"
| "js_lt _ _ = False"

fun js_ge :: "jsnum \<Rightarrow> jsnum \<Rightarrow> bool" where
  "js_ge NaN _ = False"
| "js_ge _ NaN = False"
| "js_ge x y = (\<not> js_lt x y)"

fun js_add :: "jsnum \<Rightarrow> jsnum \<Rightarrow> jsnum" where
  "js_add NaN _ = NaN"
| "js_add _ NaN = NaN"
| "js_add (Fin a) (Fin b) = Fin (a + b)"
| "js_add PInf NInf = NaN"
| "js_add NInf PInf = NaN"
| "js_add (Fin a) y = y"
| "js_add x _ = x"

fun js_neg :: "jsnum \<Rightarrow> jsnum" where
  "js_neg NaN = NaN"
| "js_neg PInf = NInf"
| "js_neg NInf = PInf"
| "js_neg (Fin a) = Fin (- a)"

definition js_sub :: "jsnum \<Rightarrow> jsnum \<Rightarrow> jsnum" where
  "js_sub x y = js_add x (js_neg y)"

fun js_mul :: "jsnum \<Rightarrow> jsnum \<Rightarrow> jsnum" where
  "js_mul NaN _ = NaN"
| "js_mul _ NaN = NaN"
| "js_mul (Fin a) (Fin b) = Fin (a * b)"
| "js_mul x y =
     (if is_zero x \<or> is_zero y then NaN else signed_inf (is_neg x \<noteq> is_neg y))"

fun js_div :: "jsnum \<Rightarrow> jsnum \<Rightarrow> jsnum" where
  "js_div NaN _ = NaN"
| "js_div _ NaN = NaN"
| "js_div (Fin a) (Fin b) =
     (if b = 0 then (if a = 0 then NaN else signed_inf (a < 0)) else Fin (a / b))"
| "js_div (Fin a) _ = Fin 0"
| "js_div x y = (if is_inf y then NaN else signed_inf (is_neg x \<noteq> is_neg y))"

fun Math_abs :: "jsnum \<Rightarrow> jsnum" where
  "Math_abs NaN = NaN"
| "Math_abs (Fin a) = Fin \<bar>a\<bar>"
| "Math_abs _ = PInf"

fun Math_log :: "jsnum \<Rightarrow> jsnum" where
  "Math_log (Fin a) = (if a < 0 then NaN else if a = 0 then NInf else Fin (ln a))"
| "Math_log PInf = PInf"
| "Math_log _ = NaN"

definition Math_LN10 :: jsnum where
  "Math_LN10 = Fin (ln 10)"

fun Math_floor :: "jsnum \<Rightarrow> jsnum" where
  "Math_floor (Fin a) = Fin (of_int \<lfloor>a\<rfloor>)"
| "Math_floor x = x"

text \<open>\<^verbatim>\<open>Math.round\<close>: the nearest integer, a tie going up (towards \<open>+Infinity\<close>).\<close>

fun Math_round :: "jsnum \<Rightarrow> jsnum" where
  "Math_round (Fin a) = Fin (of_int \<lfloor>a + 1 / 2\<rfloor>)"
| "Math_round x = x"

text \<open>\<^verbatim>\<open>Math.pow(10, e)\<close>, the only call of \<^verbatim>\<open>Math.pow\<close> in the file.\<close>

fun Math_pow10 :: "jsnum \<Rightarrow> jsnum" where
  "Math_pow10 NaN = NaN"
| "Math_pow10 PInf = PInf"
| "Math_pow10 NInf = Fin 0"
| "Math_pow10 (Fin e) = Fin (10 powr e)"

text \<open>\<^verbatim>\<open>Math.max\<close> of two numbers.\<close>

definition Math_max :: "jsnum \<Rightarrow> jsnum \<Rightarrow> jsnum" where
  "Math_max x y = (if x = NaN \<or> y = NaN then NaN else if js_lt x y then y else x)"

section \<open>Length units\<close>

text \<open>
  A JavaScript string is a sequence of UTF-16 code units; every code unit of the unit
  names is below 256 and is written as one \<open>char\<close> (the micro sign is \<open>0xB5\<close>).
\<close>

record LengthUnit =
  unit :: string
  lengthInNanometers :: jsnum

definition ALLOWED_UNITS :: "LengthUnit list" where
  "ALLOWED_UNITS =
    [\<lparr>unit = ''km'', lengthInNanometers = Fin 1000000000000\<rparr>,
     \<lparr>unit = ''m'', lengthInNanometers = Fin 1000000000\<rparr>,
     \<lparr>unit = ''mm'', lengthInNanometers = Fin 1000000\<rparr>,
     \<lparr>unit = [CHR 0xB5, CHR ''m''], lengthInNanometers = Fin 1000\<rparr>,
     \<lparr>unit = ''nm'', lengthInNanometers = Fin 1\<rparr>,
     \<lparr>unit = ''pm'', lengthInNanometers = Fin (1 / 1000)\<rparr>]"

text \<open>The loop of \<^verbatim>\<open>pickLengthUnit\<close>: the first unit that is small enough ends it.\<close>

fun pickLengthUnit_loop :: "LengthUnit list \<Rightarrow> jsnum \<Rightarrow> LengthUnit \<Rightarrow> LengthUnit" where
  "pickLengthUnit_loop [] x u = u"
| "pickLengthUnit_loop (allowedUnit # rest) x u =
     (if js_ge x (lengthInNanometers allowedUnit) then allowedUnit
      else pickLengthUnit_loop rest x u)"

definition pickLengthUnit :: "jsnum \<Rightarrow> LengthUnit" where
  "pickLengthUnit x = pickLengthUnit_loop ALLOWED_UNITS x (last ALLOWED_UNITS)"

section \<open>The quantizer: ScaleBarDimensions\<close>

text \<open>Default set of allowed significand values. 1 is implicitly part of the set.\<close>

definition DEFAULT_ALLOWED_SIGNIFICANDS :: "jsnum list" where
  "DEFAULT_ALLOWED_SIGNIFICANDS = [Fin 1.5, Fin 2, Fin 3, Fin 5, Fin 7.5, Fin 10]"

text \<open>
  The three computed fields are declared without an initial value, so they are
  \<^verbatim>\<open>undefined\<close> (\<open>None\<close>) until the first \<^verbatim>\<open>update()\<close> that assigns them.
\<close>

record ScaleBarDimensions =
  allowedSignificands :: "jsnum list"
  targetLengthInPixels :: jsnum
  nanometersPerPixel :: jsnum
  lengthInPixels :: "jsnum option"
  physicalLength :: "jsnum option"
  physicalUnit :: "string option"
  prevNanometersPerPixel :: jsnum
  prevTargetLengthInPixels :: jsnum

text \<open>The object \<^verbatim>\<open>new ScaleBarDimensions()\<close>.\<close>

definition new_ScaleBarDimensions :: ScaleBarDimensions where
  "new_ScaleBarDimensions =
    \<lparr>allowedSignificands = DEFAULT_ALLOWED_SIGNIFICANDS,
     targetLengthInPixels = Fin 0,
     nanometersPerPixel = Fin 0,
     lengthInPixels = None,
     physicalLength = None,
     physicalUnit = None,
     prevNanometersPerPixel = Fin 0,
     prevTargetLengthInPixels = Fin 0\<rparr>"

text \<open>
  The loop over \<^verbatim>\<open>this.allowedSignificands\<close>: a candidate strictly closer to the
  target replaces the best one, the first candidate that is not ends the loop.
\<close>

fun closestSignificand :: "jsnum list \<Rightarrow> jsnum \<Rightarrow> jsnum \<Rightarrow> jsnum" where
  "closestSignificand [] bestSignificand targetSignificand = bestSignificand"
| "closestSignificand (allowedSignificand # rest) bestSignificand targetSignificand =
     (if js_lt (Math_abs (js_sub allowedSignificand targetSignificand))
               (Math_abs (js_sub bestSignificand targetSignificand))
      then closestSignificand rest allowedSignificand targetSignificand
      else bestSignificand)"

text \<open>Lines 123 to 126 of \<^verbatim>\<open>update()\<close>: the target length and its decomposition.\<close>

definition targetNanometers :: "ScaleBarDimensions \<Rightarrow> jsnum" where
  "targetNanometers this = js_mul (targetLengthInPixels this) (nanometersPerPixel this)"

definition exponent :: "ScaleBarDimensions \<Rightarrow> jsnum" where
  "exponent this = Math_floor (js_div (Math_log (targetNanometers this)) Math_LN10)"

definition tenToThePowerExponent :: "ScaleBarDimensions \<Rightarrow> jsnum" where
  "tenToThePowerExponent this = Math_pow10 (exponent this)"

definition targetSignificand :: "ScaleBarDimensions \<Rightarrow> jsnum" where
  "targetSignificand this = js_div (targetNanometers this) (tenToThePowerExponent this)"

text \<open>Lines 130 to 141: the best significand and the physical length it gives.\<close>

definition bestSignificand :: "ScaleBarDimensions \<Rightarrow> jsnum" where
  "bestSignificand this =
     closestSignificand (allowedSignificands this) (Fin 1) (targetSignificand this)"

definition physicalNanometers :: "ScaleBarDimensions \<Rightarrow> jsnum" where
  "physicalNanometers this = js_mul (bestSignificand this) (tenToThePowerExponent this)"

text \<open>The cache test of \<^verbatim>\<open>update()\<close>, lines 117 and 118.\<close>

definition inputsUnchanged :: "ScaleBarDimensions \<Rightarrow> bool" where
  "inputsUnchanged this \<longleftrightarrow>
     js_seq (prevNanometersPerPixel this) (nanometersPerPixel this) \<and>
     js_seq (prevTargetLengthInPixels this) (targetLengthInPixels this)"

text \<open>
  \<^verbatim>\<open>update()\<close> returns its boolean and the object as it has left it. No statement of
  it throws.
\<close>

definition update :: "ScaleBarDimensions \<Rightarrow> bool \<times> ScaleBarDimensions" where
  "update this =
     (if inputsUnchanged this then (False, this)
      else
        let unit' = pickLengthUnit (physicalNanometers this)
        in (True,
            this\<lparr>prevNanometersPerPixel := nanometersPerPixel this,
                 prevTargetLengthInPixels := targetLengthInPixels this,
                 lengthInPixels :=
                   Some (Math_round (js_div (physicalNanometers this) (nanometersPerPixel this))),
                 physicalUnit := Some (unit unit'),
                 physicalLength :=
                   Some (js_div (physicalNanometers this) (lengthInNanometers unit'))\<rparr>))"

section \<open>The renderer: ScaleBarTexture\<close>

text \<open>
  The canvas is what \<^verbatim>\<open>makeScaleBarTexture\<close> sets and draws on it: its size and the
  drawing calls in order, each with the context state (font, alignment, fill style)
  it is made under.
\<close>

datatype draw_call =
  FillRect string jsnum jsnum jsnum jsnum
| FillText string string string string jsnum jsnum

record canvas =
  canvas_width :: jsnum
  canvas_height :: jsnum
  calls :: "draw_call list"

text \<open>
  What the file takes from outside: the conversion of a number to a string (in the
  label's template string), the text metrics of the 2D context, and the two operations
  of the graphics context, \<^verbatim>\<open>gl.createTexture()\<close> (which may return \<^verbatim>\<open>null\<close>) and
  \<^verbatim>\<open>setTextureFromCanvas\<close> of \<^verbatim>\<open>neuroglancer/webgl/texture\<close>. They are parameters:
  \<open>'gl\<close> is the state of the graphics context, \<open>'tex\<close> a texture handle.
\<close>

record ('gl, 'tex) collaborators =
  numberToString :: "jsnum \<Rightarrow> string"
  measureText :: "string \<Rightarrow> string \<Rightarrow> jsnum"
  createTexture :: "'gl \<Rightarrow> 'tex option \<times> 'gl"
  setTextureFromCanvas :: "'gl \<Rightarrow> 'tex option \<Rightarrow> canvas \<Rightarrow> 'gl"

text \<open>A field that is still \<^verbatim>\<open>undefined\<close> reads as \<open>NaN\<close> where a number is expected
  and as the text \<^verbatim>\<open>undefined\<close> in a template string.\<close>

definition toNumber :: "jsnum option \<Rightarrow> jsnum" where
  "toNumber v = (case v of None \<Rightarrow> NaN | Some x \<Rightarrow> x)"

definition labelText :: "('gl, 'tex) collaborators \<Rightarrow> ScaleBarDimensions \<Rightarrow> string" where
  "labelText C dimensions =
     (case physicalLength dimensions of None \<Rightarrow> ''undefined'' | Some x \<Rightarrow> numberToString C x)
     @ '' '' @
     (case physicalUnit dimensions of None \<Rightarrow> ''undefined'' | Some u \<Rightarrow> u)"

definition makeScaleBarTexture ::
  "('gl, 'tex) collaborators \<Rightarrow> ScaleBarDimensions \<Rightarrow> 'gl \<Rightarrow> 'tex option
     \<Rightarrow> (jsnum \<times> jsnum) \<times> 'gl" where
  "makeScaleBarTexture C dimensions gl texture =
     (let textHeight = Fin 15;
          font = ''bold 15px sans-serif'';
          text = labelText C dimensions;
          innerWidth = Math_max (toNumber (lengthInPixels dimensions)) (measureText C font text);
          barHeight = Fin 8;
          barTopMargin = Fin 5;
          innerHeight = js_add (js_add barHeight barTopMargin) textHeight;
          padding = Fin 2;
          totalHeight = js_add innerHeight (js_mul (Fin 2) padding);
          totalWidth = js_add innerWidth (js_mul (Fin 2) padding);
          the_canvas =
            \<lparr>canvas_width = totalWidth,
             canvas_height = totalHeight,
             calls =
               [FillRect ''rgba(0, 0, 0, 0.3)'' (Fin 0) (Fin 0) totalWidth totalHeight,
                FillText font ''center'' ''white'' text (js_div totalWidth (Fin 2))
                  (js_sub (js_sub (js_sub totalHeight padding) barHeight) barTopMargin),
                FillRect ''white'' padding (js_sub (js_sub totalHeight padding) barHeight)
                  (toNumber (lengthInPixels dimensions)) barHeight]\<rparr>
      in ((totalWidth, totalHeight), setTextureFromCanvas C gl texture the_canvas))"

record ('gl, 'tex) ScaleBarTexture =
  texture :: "'tex option"
  width :: jsnum
  height :: jsnum
  gl :: 'gl
  dimensions :: ScaleBarDimensions

text \<open>The object \<^verbatim>\<open>new ScaleBarTexture(gl, dimensions)\<close>.\<close>

definition new_ScaleBarTexture :: "'gl \<Rightarrow> ScaleBarDimensions \<Rightarrow> ('gl, 'tex) ScaleBarTexture" where
  "new_ScaleBarTexture g d =
     \<lparr>texture = None, width = Fin 0, height = Fin 0, gl = g, dimensions = d\<rparr>"

text \<open>
  \<^verbatim>\<open>ScaleBarTexture.update()\<close>. The quantizer is updated first, in place; a texture
  handle is created only when there is none.
\<close>

definition ScaleBarTexture_update ::
  "('gl, 'tex) collaborators \<Rightarrow> ('gl, 'tex) ScaleBarTexture \<Rightarrow> ('gl, 'tex) ScaleBarTexture" where
  "ScaleBarTexture_update C this =
     (let (changed, dimensions') = update (dimensions this);
          this1 = this\<lparr>dimensions := dimensions'\<rparr>
      in if \<not> changed \<and> texture this \<noteq> None then this1
         else
           let (texture', gl') =
                 (if texture this = None then createTexture C (gl this)
                  else (texture this, gl this));
               ((width', height'), gl'') = makeScaleBarTexture C dimensions' gl' texture'
           in this1\<lparr>texture := texture', gl := gl'', width := width', height := height'\<rparr>)"


text \<open>
  A graphics context to run the renderer on: handles are numbered from a counter, and
  every upload is appended to a log with the handle it went to.
\<close>

definition logging_gl :: "(nat \<times> (nat option \<times> canvas) list, nat) collaborators" where
  "logging_gl =
     \<lparr>numberToString = (\<lambda>x. ''?''),
      measureText = (\<lambda>font text. Fin (10 * real (length text))),
      createTexture = (\<lambda>(n, uploads). (Some n, (Suc n, uploads))),
      setTextureFromCanvas = (\<lambda>(n, uploads) t c. (n, uploads @ [(t, c)]))\<rparr>"

text \<open>Scenario B of the specification: a fresh quantizer given 50 pixels and 37 nm per pixel.\<close>

definition scenario_B :: ScaleBarDimensions where
  "scenario_B =
     new_ScaleBarDimensions\<lparr>targetLengthInPixels := Fin 50, nanometersPerPixel := Fin 37\<rparr>"

section \<open>Binary64 arithmetic\<close>

text \<open>
  The operators above compute exactly on finite values. That is enough wherever the
  program only compares, copies or meets a special value, and at inputs where no
  result is rounded across a decision. The round trip and the quantization of
  arbitrary inputs depend on how results are rounded and on overflow, so for them the
  quantizer is embedded a second time, with the arithmetic of IEEE 754 binary64:
  every product, quotient and difference is the exact result rounded to the nearest
  number with a 53 bit significand and an exponent of at least \<open>-1074\<close> (a tie goes
  to the even significand), or an infinity when the rounded magnitude reaches
  \<open>2\<^sup>1\<^sup>0\<^sup>2\<^sup>4\<close>. \<^verbatim>\<open>Math.floor\<close>, \<^verbatim>\<open>Math.round\<close>, \<^verbatim>\<open>Math.abs\<close> and the comparisons are
  exact in binary64 too, and are the ones above.
\<close>

definition round_half_even :: "real \<Rightarrow> int" where
  "round_half_even y =
     (let f = \<lfloor>y\<rfloor> in
      if y - of_int f < 1 / 2 then f
      else if 1 / 2 < y - of_int f then f + 1
      else if even f then f else f + 1)"

text \<open>The exponent of the last bit of the significand of the binary64 numbers around \<open>x\<close>.\<close>

definition ulp_exponent :: "real \<Rightarrow> int" where
  "ulp_exponent x = max (\<lfloor>log 2 \<bar>x\<bar>\<rfloor> - 52) (- 1074)"

definition round64 :: "real \<Rightarrow> jsnum" where
  "round64 x =
     (if x = 0 then Fin 0
      else let u = 2 powr of_int (ulp_exponent x);
               r = of_int (round_half_even (x / u)) * u
           in if 2 ^ 1024 \<le> \<bar>r\<bar> then signed_inf (x < 0) else Fin r)"

fun rnd :: "jsnum \<Rightarrow> jsnum" where
  "rnd (Fin r) = round64 r"
| "rnd x = x"

text \<open>The binary64 operators \<^verbatim>\<open>*\<close>, \<^verbatim>\<open>/\<close> and \<^verbatim>\<open>-\<close>: the exact result, rounded.\<close>

definition mul64 :: "jsnum \<Rightarrow> jsnum \<Rightarrow> jsnum" where
  "mul64 x y = rnd (js_mul x y)"

definition div64 :: "jsnum \<Rightarrow> jsnum \<Rightarrow> jsnum" where
  "div64 x y = rnd (js_div x y)"

definition sub64 :: "jsnum \<Rightarrow> jsnum \<Rightarrow> jsnum" where
  "sub64 x y = rnd (js_sub x y)"

text \<open>
  ECMAScript fixes \<^verbatim>\<open>Math.log\<close> and \<^verbatim>\<open>Math.pow\<close> at the special arguments
  (\<^verbatim>\<open>Math.log(1)\<close> is 0, \<^verbatim>\<open>Math.pow(10, 0)\<close> is 1) and leaves every other result to
  the implementation. Those results are the parameter: \<open>log_finite\<close> for a positive
  finite argument other than 1, \<open>pow10_finite\<close> for a finite exponent other than 0.
\<close>

record math_library =
  log_finite :: "real \<Rightarrow> jsnum"
  pow10_finite :: "real \<Rightarrow> jsnum"

definition Math_log64 :: "math_library \<Rightarrow> jsnum \<Rightarrow> jsnum" where
  "Math_log64 M x =
     (case x of
        Fin a \<Rightarrow> if a < 0 then NaN else if a = 0 then NInf else if a = 1 then Fin 0
                 else log_finite M a
      | PInf \<Rightarrow> PInf
      | _ \<Rightarrow> NaN)"

definition Math_pow10_64 :: "math_library \<Rightarrow> jsnum \<Rightarrow> jsnum" where
  "Math_pow10_64 M e =
     (case e of
        NaN \<Rightarrow> NaN
      | PInf \<Rightarrow> PInf
      | NInf \<Rightarrow> Fin 0
      | Fin k \<Rightarrow> if k = 0 then Fin 1 else pow10_finite M k)"

text \<open>\<^verbatim>\<open>Math.LN10\<close> is the binary64 number nearest to \<open>ln 10\<close>.\<close>

definition Math_LN10_64 :: jsnum where
  "Math_LN10_64 = round64 (ln 10)"

text \<open>A library whose every result is the exact one, rounded.\<close>

definition correctly_rounded :: math_library where
  "correctly_rounded =
     \<lparr>log_finite = (\<lambda>a. round64 (ln a)), pow10_finite = (\<lambda>k. round64 (10 powr k))\<rparr>"


text \<open>
  The unit table with its literals as binary64 numbers (only \<^verbatim>\<open>1e-3\<close> is rounded), and
  \<^verbatim>\<open>pickLengthUnit\<close> on it.
\<close>

definition ALLOWED_UNITS64 :: "LengthUnit list" where
  "ALLOWED_UNITS64 =
     map (\<lambda>u. u\<lparr>lengthInNanometers := rnd (lengthInNanometers u)\<rparr>) ALLOWED_UNITS"

definition pickLengthUnit64 :: "jsnum \<Rightarrow> LengthUnit" where
  "pickLengthUnit64 x = pickLengthUnit_loop ALLOWED_UNITS64 x (last ALLOWED_UNITS64)"

text \<open>The loop over \<^verbatim>\<open>this.allowedSignificands\<close> and \<^verbatim>\<open>update()\<close>, line by line as above.\<close>

fun closestSignificand64 :: "jsnum list \<Rightarrow> jsnum \<Rightarrow> jsnum \<Rightarrow> jsnum" where
  "closestSignificand64 [] best target = best"
| "closestSignificand64 (allowedSignificand # rest) best target =
     (if js_lt (Math_abs (sub64 allowedSignificand target)) (Math_abs (sub64 best target))
      then closestSignificand64 rest allowedSignificand target
      else best)"

definition targetNanometers64 :: "ScaleBarDimensions \<Rightarrow> jsnum" where
  "targetNanometers64 this = mul64 (targetLengthInPixels this) (nanometersPerPixel this)"

definition exponent64 :: "math_library \<Rightarrow> ScaleBarDimensions \<Rightarrow> jsnum" where
  "exponent64 M this =
     Math_floor (div64 (Math_log64 M (targetNanometers64 this)) Math_LN10_64)"

definition tenToThePowerExponent64 :: "math_library \<Rightarrow> ScaleBarDimensions \<Rightarrow> jsnum" where
  "tenToThePowerExponent64 M this = Math_pow10_64 M (exponent64 M this)"

definition targetSignificand64 :: "math_library \<Rightarrow> ScaleBarDimensions \<Rightarrow> jsnum" where
  "targetSignificand64 M this =
     div64 (targetNanometers64 this) (tenToThePowerExponent64 M this)"

definition bestSignificand64 :: "math_library \<Rightarrow> ScaleBarDimensions \<Rightarrow> jsnum" where
  "bestSignificand64 M this =
     closestSignificand64 (allowedSignificands this) (Fin 1) (targetSignificand64 M this)"

definition physicalNanometers64 :: "math_library \<Rightarrow> ScaleBarDimensions \<Rightarrow> jsnum" where
  "physicalNanometers64 M this =
     mul64 (bestSignificand64 M this) (tenToThePowerExponent64 M this)"

definition update64 :: "math_library \<Rightarrow> ScaleBarDimensions \<Rightarrow> bool \<times> ScaleBarDimensions" where
  "update64 M this =
     (if inputsUnchanged this then (False, this)
      else
        let unit' = pickLengthUnit64 (physicalNanometers64 M this)
        in (True,
            this\<lparr>prevNanometersPerPixel := nanometersPerPixel this,
                 prevTargetLengthInPixels := targetLengthInPixels this,
                 lengthInPixels :=
                   Some (Math_round
                           (div64 (physicalNanometers64 M this) (nanometersPerPixel this))),
                 physicalUnit := Some (unit unit'),
                 physicalLength :=
                   Some (div64 (physicalNanometers64 M this) (lengthInNanometers unit'))\<rparr>))"

text \<open>Two inputs: one whose product overflows, and one with nothing to round.\<close>

definition overflow_input :: ScaleBarDimensions where
  "overflow_input =
     new_ScaleBarDimensions\<lparr>targetLengthInPixels := Fin (2 ^ 600),
                            nanometersPerPixel := Fin (2 ^ 600)\<rparr>"

definition unit_input :: ScaleBarDimensions where
  "unit_input =
     new_ScaleBarDimensions\<lparr>targetLengthInPixels := Fin 1, nanometersPerPixel := Fin 1\<rparr>"

section \<open>Basic facts about the operators\<close>

lemmas quantizer_defs =
  physicalNanometers_def bestSignificand_def tenToThePowerExponent_def exponent_def
  targetNanometers_def targetSignificand_def Math_LN10_def

lemma js_seq_iff: "js_seq x y \<longleftrightarrow> x = y \<and> x \<noteq> NaN"
  by (cases x; cases y) auto

lemma js_sub_NaN [simp]: "js_sub x NaN = NaN"
  by (cases x) (simp_all add: js_sub_def)

lemma floor_log10_1850: "\<lfloor>ln 1850 / ln (10::real)\<rfloor> = 3"
proof -
  have "\<lfloor>log 10 (1850::real)\<rfloor> = 3"
    by (subst floor_log_eq_powr_iff) auto
  then show ?thesis by (simp add: log_def)
qed

section \<open>Unit selection\<close>

lemma pickLengthUnit_loop_find:
  "pickLengthUnit_loop us x d =
     (case find (\<lambda>u. js_ge x (lengthInNanometers u)) us of Some u \<Rightarrow> u | None \<Rightarrow> d)"
  by (induction us) auto

lemma pickLengthUnit_member: "pickLengthUnit x \<in> set ALLOWED_UNITS"
  by (simp add: pickLengthUnit_def ALLOWED_UNITS_def)

text \<open>
  Claim C3. For every length, and so for every length \<open>\<ge> 0\<close>, \<^verbatim>\<open>pickLengthUnit\<close>
  returns one unit of the fixed table km, m, mm, \<open>\<mu>\<close>m, nm, pm (\<open>10\<^sup>1\<^sup>2\<close>, \<open>10\<^sup>9\<close>, \<open>10\<^sup>6\<close>,
  \<open>10\<^sup>3\<close>, \<open>1\<close>, \<open>10\<^sup>-\<^sup>3\<close> nanometers): the first unit in table order whose length is at
  most the input, and the last one, pm, when there is none. A length on a boundary
  gets the larger unit: 1000 nm is reported in \<open>\<mu>\<close>m.
\<close>

theorem pickLengthUnit_first_fit:
  "map (\<lambda>u. (unit u, lengthInNanometers u)) ALLOWED_UNITS =
     [(''km'', Fin (10 ^ 12)), (''m'', Fin (10 ^ 9)), (''mm'', Fin (10 ^ 6)),
      ([CHR 0xB5, CHR ''m''], Fin (10 ^ 3)), (''nm'', Fin 1), (''pm'', Fin (1 / 10 ^ 3))]
   \<and> pickLengthUnit x \<in> set ALLOWED_UNITS
   \<and> pickLengthUnit x =
       (case find (\<lambda>u. js_ge x (lengthInNanometers u)) ALLOWED_UNITS of
          Some u \<Rightarrow> u | None \<Rightarrow> last ALLOWED_UNITS)
   \<and> unit (last ALLOWED_UNITS) = ''pm''
   \<and> unit (pickLengthUnit (Fin r)) =
       (if 10 ^ 12 \<le> r then ''km'' else if 10 ^ 9 \<le> r then ''m''
        else if 10 ^ 6 \<le> r then ''mm'' else if 10 ^ 3 \<le> r then [CHR 0xB5, CHR ''m'']
        else if 1 \<le> r then ''nm'' else ''pm'')
   \<and> pickLengthUnit (Fin 1000) = \<lparr>unit = [CHR 0xB5, CHR ''m''], lengthInNanometers = Fin 1000\<rparr>"
proof -
  have 1: "pickLengthUnit x =
           (case find (\<lambda>u. js_ge x (lengthInNanometers u)) ALLOWED_UNITS of
              Some u \<Rightarrow> u | None \<Rightarrow> last ALLOWED_UNITS)"
    by (simp only: pickLengthUnit_def pickLengthUnit_loop_find)
  have 2: "pickLengthUnit (Fin 1000) = \<lparr>unit = [CHR 0xB5, CHR ''m''], lengthInNanometers = Fin 1000\<rparr>"
    by (simp add: pickLengthUnit_def ALLOWED_UNITS_def)
  have 3: "map (\<lambda>u. (unit u, lengthInNanometers u)) ALLOWED_UNITS =
           [(''km'', Fin (10 ^ 12)), (''m'', Fin (10 ^ 9)), (''mm'', Fin (10 ^ 6)),
            ([CHR 0xB5, CHR ''m''], Fin (10 ^ 3)), (''nm'', Fin 1), (''pm'', Fin (1 / 10 ^ 3))]"
    by (simp add: ALLOWED_UNITS_def)
  have 4: "unit (last ALLOWED_UNITS) = ''pm''"
    by (simp add: ALLOWED_UNITS_def)
  have 5: "unit (pickLengthUnit (Fin r)) =
       (if 10 ^ 12 \<le> r then ''km'' else if 10 ^ 9 \<le> r then ''m''
        else if 10 ^ 6 \<le> r then ''mm'' else if 10 ^ 3 \<le> r then [CHR 0xB5, CHR ''m'']
        else if 1 \<le> r then ''nm'' else ''pm'')"
    by (simp add: pickLengthUnit_def ALLOWED_UNITS_def not_less)
  from 1 2 3 4 5 pickLengthUnit_member [of x] show ?thesis by blast
qed

section \<open>Change detection\<close>

lemma update_inputs [simp]:
  "nanometersPerPixel (snd (update s)) = nanometersPerPixel s"
  "targetLengthInPixels (snd (update s)) = targetLengthInPixels s"
  "allowedSignificands (snd (update s)) = allowedSignificands s"
  by (simp_all add: update_def Let_def)

lemma update_iter_inputs:
  "nanometersPerPixel (((snd \<circ> update) ^^ k) s) = nanometersPerPixel s \<and>
   targetLengthInPixels (((snd \<circ> update) ^^ k) s) = targetLengthInPixels s"
  by (induction k) simp_all

lemma NaN_not_unchanged:
  "nanometersPerPixel s = NaN \<or> targetLengthInPixels s = NaN \<Longrightarrow> \<not> inputsUnchanged s"
  by (auto simp: inputsUnchanged_def js_seq_iff)

lemma update_False_same: "fst (update d) = False \<Longrightarrow> snd (update d) = d"
  by (simp add: update_def Let_def split: if_splits)

text \<open>
  Claim C4, as stated: \<^verbatim>\<open>update()\<close> returns false exactly when both inputs are the
  ones of the previous call. It fails for \<open>NaN\<close>: a quantizer given 100 pixels and a
  pixel size of \<open>NaN\<close> is updated, its inputs are left as they are, and the next
  \<^verbatim>\<open>update()\<close> returns true again.
\<close>

theorem update_repeated_NaN_counterexample:
  "nanometersPerPixel (snd (update (new_ScaleBarDimensions
      \<lparr>targetLengthInPixels := Fin 100, nanometersPerPixel := NaN\<rparr>))) = NaN
   \<and> targetLengthInPixels (snd (update (new_ScaleBarDimensions
      \<lparr>targetLengthInPixels := Fin 100, nanometersPerPixel := NaN\<rparr>))) = Fin 100
   \<and> fst (update (snd (update (new_ScaleBarDimensions
      \<lparr>targetLengthInPixels := Fin 100, nanometersPerPixel := NaN\<rparr>)))) = True"
  by (simp add: update_def Let_def inputsUnchanged_def new_ScaleBarDimensions_def)

text \<open>
  Claim C4, amended. \<^verbatim>\<open>update()\<close> returns false exactly when both inputs are strictly
  equal (\<^verbatim>\<open>===\<close>) to the cached fields \<^verbatim>\<open>prevNanometersPerPixel\<close> and
  \<^verbatim>\<open>prevTargetLengthInPixels\<close>, and then the object is left as it is. Otherwise it
  returns true, assigns the three outputs from the current inputs and caches the inputs.
  After any call the cached fields are strictly equal to the inputs, so that a second
  call with the same inputs returns false, exactly when neither input is \<open>NaN\<close>.
\<close>

theorem update_change_detection:
  "(fst (update s) = False \<longleftrightarrow> inputsUnchanged s)
   \<and> (if inputsUnchanged s then snd (update s) = s
      else fst (update s) = True
         \<and> lengthInPixels (snd (update s)) =
             Some (Math_round (js_div (physicalNanometers s) (nanometersPerPixel s)))
         \<and> physicalUnit (snd (update s)) = Some (unit (pickLengthUnit (physicalNanometers s)))
         \<and> physicalLength (snd (update s)) =
             Some (js_div (physicalNanometers s)
                    (lengthInNanometers (pickLengthUnit (physicalNanometers s))))
         \<and> prevNanometersPerPixel (snd (update s)) = nanometersPerPixel s
         \<and> prevTargetLengthInPixels (snd (update s)) = targetLengthInPixels s)
   \<and> (fst (update (snd (update s))) = False \<longleftrightarrow>
        nanometersPerPixel s \<noteq> NaN \<and> targetLengthInPixels s \<noteq> NaN)"
  by (auto simp: update_def Let_def inputsUnchanged_def js_seq_iff)

theorem update_change_detection_witness:
  "\<not> inputsUnchanged scenario_B
   \<and> fst (update scenario_B) = True
   \<and> prevNanometersPerPixel (snd (update scenario_B)) = Fin 37
   \<and> prevTargetLengthInPixels (snd (update scenario_B)) = Fin 50
   \<and> fst (update (snd (update scenario_B))) = False"
proof -
  have "\<not> inputsUnchanged scenario_B"
    by (simp add: scenario_B_def new_ScaleBarDimensions_def inputsUnchanged_def)
  moreover have "nanometersPerPixel scenario_B = Fin 37" "targetLengthInPixels scenario_B = Fin 50"
    by (simp_all add: scenario_B_def)
  ultimately show ?thesis
    using update_change_detection [of scenario_B] by simp
qed

text \<open>
  Claim C9. When \<^verbatim>\<open>nanometersPerPixel\<close> or \<^verbatim>\<open>targetLengthInPixels\<close> is \<open>NaN\<close>,
  \<^verbatim>\<open>update()\<close> returns true on every call: after any number \<open>k\<close> of calls, which leave
  the inputs as they are, the next call returns true again.
\<close>

theorem update_NaN_always_changed:
  assumes "nanometersPerPixel s = NaN \<or> targetLengthInPixels s = NaN"
  shows "nanometersPerPixel (((snd \<circ> update) ^^ k) s) = nanometersPerPixel s
       \<and> targetLengthInPixels (((snd \<circ> update) ^^ k) s) = targetLengthInPixels s
       \<and> fst (update (((snd \<circ> update) ^^ k) s)) = True"
proof -
  let ?s = "((snd \<circ> update) ^^ k) s"
  have "nanometersPerPixel ?s = NaN \<or> targetLengthInPixels ?s = NaN"
    using assms update_iter_inputs [of k s] by simp
  then have "\<not> inputsUnchanged ?s" by (rule NaN_not_unchanged)
  then have "fst (update ?s) = True" by (simp add: update_def Let_def)
  with update_iter_inputs [of k s] show ?thesis by simp
qed

theorem update_NaN_always_changed_witness:
  "nanometersPerPixel (new_ScaleBarDimensions\<lparr>nanometersPerPixel := NaN\<rparr>) = NaN
   \<and> fst (update (new_ScaleBarDimensions\<lparr>nanometersPerPixel := NaN\<rparr>)) = True
   \<and> fst (update (snd (update (new_ScaleBarDimensions\<lparr>nanometersPerPixel := NaN\<rparr>)))) = True"
proof -
  let ?s = "new_ScaleBarDimensions\<lparr>nanometersPerPixel := NaN\<rparr>"
  have h: "nanometersPerPixel ?s = NaN \<or> targetLengthInPixels ?s = NaN" by simp
  from update_NaN_always_changed [OF h, of 0] update_NaN_always_changed [OF h, of 1]
  show ?thesis by simp
qed

text \<open>
  Claim C10. On a fresh quantizer, whose inputs and cached inputs are all 0, the first
  \<^verbatim>\<open>update()\<close> returns false and leaves the object as it is: the three outputs are
  still unassigned.
\<close>

theorem update_fresh_unchanged:
  "targetLengthInPixels new_ScaleBarDimensions = Fin 0
   \<and> nanometersPerPixel new_ScaleBarDimensions = Fin 0
   \<and> update new_ScaleBarDimensions = (False, new_ScaleBarDimensions)
   \<and> lengthInPixels (snd (update new_ScaleBarDimensions)) = None
   \<and> physicalLength (snd (update new_ScaleBarDimensions)) = None
   \<and> physicalUnit (snd (update new_ScaleBarDimensions)) = None"
  by (simp add: update_def new_ScaleBarDimensions_def inputsUnchanged_def)

section \<open>Inputs without a logarithm\<close>

lemma closestSignificand_NaN [simp]: "closestSignificand as b NaN = b"
  by (cases as) simp_all

lemma physicalNanometers_zero_pixel_exact:
  assumes "nanometersPerPixel s = Fin 0"
  shows "physicalNanometers s = (case targetLengthInPixels s of Fin t \<Rightarrow> Fin 0 | _ \<Rightarrow> NaN)"
proof (cases "targetLengthInPixels s")
  case (Fin t)
  then have zero: "targetNanometers s = Fin 0"
    by (simp add: targetNanometers_def assms)
  then have ten: "tenToThePowerExponent s = Fin 0"
    by (simp add: tenToThePowerExponent_def exponent_def Math_LN10_def signed_inf_def)
  with zero have "targetSignificand s = NaN"
    by (simp add: targetSignificand_def)
  with ten Fin show ?thesis
    by (simp add: physicalNanometers_def bestSignificand_def)
qed (simp_all add: physicalNanometers_def bestSignificand_def tenToThePowerExponent_def
       exponent_def targetSignificand_def targetNanometers_def assms)

text \<open>
  Claim C5, as stated: with \<^verbatim>\<open>nanometersPerPixel = 0\<close>, \<^verbatim>\<open>update()\<close> fails before the
  logarithm and returns no output poisoned by \<open>NaN\<close>. It does not: given 100 pixels and
  a pixel size of 0 it returns true, with \<^verbatim>\<open>lengthInPixels\<close> set to \<open>NaN\<close>, the unit pm
  and the physical length 0.
\<close>

theorem update_zero_pixel_size_counterexample:
  "update (new_ScaleBarDimensions\<lparr>targetLengthInPixels := Fin 100, nanometersPerPixel := Fin 0\<rparr>)
   = (True, new_ScaleBarDimensions\<lparr>targetLengthInPixels := Fin 100, nanometersPerPixel := Fin 0,
        prevNanometersPerPixel := Fin 0, prevTargetLengthInPixels := Fin 100,
        lengthInPixels := Some NaN, physicalUnit := Some ''pm'', physicalLength := Some (Fin 0)\<rparr>)"
  by (simp add: update_def new_ScaleBarDimensions_def quantizer_defs inputsUnchanged_def
        signed_inf_def pickLengthUnit_def ALLOWED_UNITS_def)

text \<open>
  Claim C5, amended. \<^verbatim>\<open>update()\<close> has no failure: it always returns its boolean. With
  \<^verbatim>\<open>nanometersPerPixel = 0\<close> and inputs that differ from the cached ones, whatever the
  target length and the allowed significands are, it returns true and sets
  \<^verbatim>\<open>lengthInPixels\<close> to \<open>NaN\<close>, the unit to pm, and the physical length to 0 when the
  target length is finite and to \<open>NaN\<close> when it is \<open>NaN\<close> or infinite.
\<close>

theorem update_zero_pixel_size:
  assumes "nanometersPerPixel s = Fin 0" and "\<not> inputsUnchanged s"
  shows "fst (update s) = True
       \<and> lengthInPixels (snd (update s)) = Some NaN
       \<and> physicalUnit (snd (update s)) = Some ''pm''
       \<and> physicalLength (snd (update s)) =
           Some (case targetLengthInPixels s of Fin t \<Rightarrow> Fin 0 | _ \<Rightarrow> NaN)"
proof -
  have N: "physicalNanometers s = (case targetLengthInPixels s of Fin t \<Rightarrow> Fin 0 | _ \<Rightarrow> NaN)"
    using physicalNanometers_zero_pixel_exact [OF assms(1)] .
  have pm: "pickLengthUnit (Fin 0) = \<lparr>unit = ''pm'', lengthInNanometers = Fin (1 / 1000)\<rparr>"
    "pickLengthUnit NaN = \<lparr>unit = ''pm'', lengthInNanometers = Fin (1 / 1000)\<rparr>"
    by (simp_all add: pickLengthUnit_def ALLOWED_UNITS_def)
  show ?thesis
    using assms pm by (cases "targetLengthInPixels s") (simp_all add: update_def Let_def N)
qed

theorem update_zero_pixel_size_witness:
  "nanometersPerPixel (new_ScaleBarDimensions\<lparr>targetLengthInPixels := Fin 100\<rparr>) = Fin 0
   \<and> \<not> inputsUnchanged (new_ScaleBarDimensions\<lparr>targetLengthInPixels := Fin 100\<rparr>)
   \<and> fst (update (new_ScaleBarDimensions\<lparr>targetLengthInPixels := Fin 100\<rparr>)) = True
   \<and> lengthInPixels (snd (update (new_ScaleBarDimensions\<lparr>targetLengthInPixels := Fin 100\<rparr>)))
       = Some NaN
   \<and> physicalUnit (snd (update (new_ScaleBarDimensions\<lparr>targetLengthInPixels := Fin 100\<rparr>)))
       = Some ''pm''
   \<and> physicalLength (snd (update (new_ScaleBarDimensions\<lparr>targetLengthInPixels := Fin 100\<rparr>)))
       = Some (Fin 0)
   \<and> \<not> inputsUnchanged (new_ScaleBarDimensions\<lparr>targetLengthInPixels := PInf\<rparr>)
   \<and> lengthInPixels (snd (update (new_ScaleBarDimensions\<lparr>targetLengthInPixels := PInf\<rparr>)))
       = Some NaN
   \<and> physicalLength (snd (update (new_ScaleBarDimensions\<lparr>targetLengthInPixels := PInf\<rparr>)))
       = Some NaN"
proof -
  have a: "nanometersPerPixel (new_ScaleBarDimensions\<lparr>targetLengthInPixels := Fin 100\<rparr>) = Fin 0"
    "nanometersPerPixel (new_ScaleBarDimensions\<lparr>targetLengthInPixels := PInf\<rparr>) = Fin 0"
    by (simp_all add: new_ScaleBarDimensions_def)
  have b: "\<not> inputsUnchanged (new_ScaleBarDimensions\<lparr>targetLengthInPixels := Fin 100\<rparr>)"
    "\<not> inputsUnchanged (new_ScaleBarDimensions\<lparr>targetLengthInPixels := PInf\<rparr>)"
    by (simp_all add: new_ScaleBarDimensions_def inputsUnchanged_def)
  from update_zero_pixel_size [OF a(1) b(1)] update_zero_pixel_size [OF a(2) b(2)] a b
  show ?thesis by simp
qed

section \<open>The scan for the closest significand\<close>









section \<open>Scenario B\<close>

text \<open>
  Claim C7. Scenario B: with 50 pixels, 37 nm per pixel and the default significands,
  the target is 1850 nm, the exponent 3, the target significand 1.85, the best
  significand 2 and the physical length 2000 nm; \<^verbatim>\<open>update()\<close> returns true with
  physical length 2, unit \<open>\<mu>\<close>m and a bar of 54 pixels.
\<close>

theorem scenario_B_update:
  "targetNanometers scenario_B = Fin 1850
   \<and> exponent scenario_B = Fin 3
   \<and> targetSignificand scenario_B = Fin 1.85
   \<and> bestSignificand scenario_B = Fin 2
   \<and> physicalNanometers scenario_B = Fin 2000
   \<and> update scenario_B =
       (True, scenario_B\<lparr>prevNanometersPerPixel := Fin 37, prevTargetLengthInPixels := Fin 50,
          lengthInPixels := Some (Fin 54), physicalUnit := Some [CHR 0xB5, CHR ''m''],
          physicalLength := Some (Fin 2)\<rparr>)"
proof -
  have 1: "targetNanometers scenario_B = Fin 1850"
    by (simp add: targetNanometers_def scenario_B_def)
  have 2: "exponent scenario_B = Fin 3"
    by (simp add: exponent_def 1 Math_LN10_def floor_log10_1850)
  have 3: "targetSignificand scenario_B = Fin 1.85"
    by (simp add: targetSignificand_def tenToThePowerExponent_def 1 2)
  have "allowedSignificands scenario_B = DEFAULT_ALLOWED_SIGNIFICANDS"
    by (simp add: scenario_B_def new_ScaleBarDimensions_def)
  then have "bestSignificand scenario_B =
      closestSignificand DEFAULT_ALLOWED_SIGNIFICANDS (Fin 1) (Fin 1.85)"
    by (simp only: bestSignificand_def 3)
  then have 4: "bestSignificand scenario_B = Fin 2"
    by (simp add: DEFAULT_ALLOWED_SIGNIFICANDS_def js_sub_def)
  have 5: "physicalNanometers scenario_B = Fin 2000"
    by (simp add: physicalNanometers_def tenToThePowerExponent_def 2 4)
  have 6: "\<not> inputsUnchanged scenario_B"
    by (simp add: inputsUnchanged_def scenario_B_def new_ScaleBarDimensions_def)
  have 7: "pickLengthUnit (Fin 2000) = \<lparr>unit = [CHR 0xB5, CHR ''m''], lengthInNanometers = Fin 1000\<rparr>"
    by (simp add: pickLengthUnit_def ALLOWED_UNITS_def)
  have 8: "nanometersPerPixel scenario_B = Fin 37" "targetLengthInPixels scenario_B = Fin 50"
    by (simp_all add: scenario_B_def)
  have "update scenario_B =
       (True, scenario_B\<lparr>prevNanometersPerPixel := Fin 37, prevTargetLengthInPixels := Fin 50,
          lengthInPixels := Some (Fin 54), physicalUnit := Some [CHR 0xB5, CHR ''m''],
          physicalLength := Some (Fin 2)\<rparr>)"
    by (simp add: update_def 5 6 7 8)
  with 1 2 3 4 5 show ?thesis by blast
qed

section \<open>The texture cache\<close>

text \<open>The canvas that \<^verbatim>\<open>makeScaleBarTexture\<close> draws: panel, label, bar.\<close>

lemma makeScaleBarTexture_canvas:
  "makeScaleBarTexture C d g t =
     (let w = js_add (Math_max (toNumber (lengthInPixels d))
                        (measureText C ''bold 15px sans-serif'' (labelText C d))) (Fin 4)
      in ((w, Fin 32),
          setTextureFromCanvas C g t
            \<lparr>canvas_width = w, canvas_height = Fin 32,
             calls =
               [FillRect ''rgba(0, 0, 0, 0.3)'' (Fin 0) (Fin 0) w (Fin 32),
                FillText ''bold 15px sans-serif'' ''center'' ''white'' (labelText C d)
                  (js_div w (Fin 2)) (Fin 17),
                FillRect ''white'' (Fin 2) (Fin 22) (toNumber (lengthInPixels d)) (Fin 8)]\<rparr>))"
  by (simp add: makeScaleBarTexture_def Let_def js_sub_def)

text \<open>
  Claim C8. When the quantizer reports no change and a texture handle exists,
  \<^verbatim>\<open>ScaleBarTexture.update()\<close> leaves the whole renderer as it is: handle, width,
  height, quantizer and graphics context. Otherwise it keeps the updated quantizer,
  keeps the handle it has or takes the one \<^verbatim>\<open>createTexture\<close> returns when it has
  none, and rasterizes and uploads: width, height and the new graphics context are what
  \<^verbatim>\<open>makeScaleBarTexture\<close> returns for the updated quantizer and that handle, that is,
  the canvas with the panel, the label of the updated quantizer and a bar of its
  \<^verbatim>\<open>lengthInPixels\<close> is uploaded to the handle, and its size is stored.
\<close>

theorem ScaleBarTexture_update_cache:
  "if \<not> fst (update (dimensions s)) \<and> texture s \<noteq> None
   then ScaleBarTexture_update C s = s
   else let d' = snd (update (dimensions s));
            g1 = (if texture s = None then snd (createTexture C (gl s)) else gl s);
            s' = ScaleBarTexture_update C s
        in dimensions s' = d'
         \<and> texture s' = (if texture s = None then fst (createTexture C (gl s)) else texture s)
         \<and> ((width s', height s'), gl s') = makeScaleBarTexture C d' g1 (texture s')
         \<and> height s' = Fin 32
         \<and> width s' = js_add (Math_max (toNumber (lengthInPixels d'))
                          (measureText C ''bold 15px sans-serif'' (labelText C d'))) (Fin 4)
         \<and> gl s' = setTextureFromCanvas C g1 (texture s')
             \<lparr>canvas_width = width s', canvas_height = height s',
              calls =
                [FillRect ''rgba(0, 0, 0, 0.3)'' (Fin 0) (Fin 0) (width s') (Fin 32),
                 FillText ''bold 15px sans-serif'' ''center'' ''white'' (labelText C d')
                   (js_div (width s') (Fin 2)) (Fin 17),
                 FillRect ''white'' (Fin 2) (Fin 22) (toNumber (lengthInPixels d')) (Fin 8)]\<rparr>"
proof (cases "\<not> fst (update (dimensions s)) \<and> texture s \<noteq> None")
  case True
  then have "snd (update (dimensions s)) = dimensions s"
    using update_False_same by simp
  with True show ?thesis
    by (simp add: ScaleBarTexture_update_def split_beta Let_def)
next
  case False
  then show ?thesis
    by (auto simp: ScaleBarTexture_update_def split_beta Let_def makeScaleBarTexture_canvas)
qed

theorem ScaleBarTexture_update_cache_witness:
  "ScaleBarTexture_update logging_gl
     ((new_ScaleBarTexture (0, []) new_ScaleBarDimensions)\<lparr>texture := Some 7\<rparr>)
     = (new_ScaleBarTexture (0, []) new_ScaleBarDimensions)\<lparr>texture := Some 7\<rparr>
   \<and> texture (ScaleBarTexture_update logging_gl
        (new_ScaleBarTexture (0, []) new_ScaleBarDimensions)) = Some 0
   \<and> height (ScaleBarTexture_update logging_gl
        (new_ScaleBarTexture (0, []) new_ScaleBarDimensions)) = Fin 32
   \<and> gl (ScaleBarTexture_update logging_gl
        (new_ScaleBarTexture (0, []) new_ScaleBarDimensions))
       = (1, [(Some 0,
               \<lparr>canvas_width = NaN, canvas_height = Fin 32,
                calls =
                  [FillRect ''rgba(0, 0, 0, 0.3)'' (Fin 0) (Fin 0) NaN (Fin 32),
                   FillText ''bold 15px sans-serif'' ''center'' ''white''
                     ''undefined undefined'' NaN (Fin 17),
                   FillRect ''white'' (Fin 2) (Fin 22) NaN (Fin 8)]\<rparr>)])"
proof -
  let ?hit = "(new_ScaleBarTexture (0::nat, []) new_ScaleBarDimensions)\<lparr>texture := Some (7::nat)\<rparr>"
  let ?miss = "new_ScaleBarTexture (0::nat, []) new_ScaleBarDimensions
                 :: (nat \<times> (nat option \<times> canvas) list, nat) ScaleBarTexture"
  have u: "update new_ScaleBarDimensions = (False, new_ScaleBarDimensions)"
    by (simp add: update_def new_ScaleBarDimensions_def inputsUnchanged_def)
  have h: "\<not> fst (update (dimensions ?hit)) \<and> texture ?hit \<noteq> None"
    using u by (simp add: new_ScaleBarTexture_def)
  have m: "\<not> (\<not> fst (update (dimensions ?miss)) \<and> texture ?miss \<noteq> None)"
    by (simp add: new_ScaleBarTexture_def)
  have 1: "ScaleBarTexture_update logging_gl ?hit = ?hit"
    using ScaleBarTexture_update_cache [of ?hit logging_gl] unfolding if_P [OF h] .
  note 2 = ScaleBarTexture_update_cache [of ?miss logging_gl, unfolded if_not_P [OF m] Let_def]
  have d: "dimensions ?miss = new_ScaleBarDimensions" "texture ?miss = None" "gl ?miss = (0, [])"
    by (simp_all add: new_ScaleBarTexture_def)
  have l: "labelText logging_gl new_ScaleBarDimensions = ''undefined undefined''"
    "toNumber (lengthInPixels new_ScaleBarDimensions) = NaN"
    by (simp_all add: labelText_def toNumber_def new_ScaleBarDimensions_def)
  have g: "createTexture logging_gl (0, []) = (Some 0, (1, []))"
    "\<And>k us t c. setTextureFromCanvas logging_gl (k, us) t c = (k, us @ [(t, c)])"
    by (simp_all add: logging_gl_def)
  from 2 have 3: "texture (ScaleBarTexture_update logging_gl ?miss) = Some 0"
    by (simp add: d g)
  from 2 have 4: "height (ScaleBarTexture_update logging_gl ?miss) = Fin 32"
    by simp
  from 2 have 5: "width (ScaleBarTexture_update logging_gl ?miss) = NaN"
    by (simp add: d u l Math_max_def)
  from 2 have "gl (ScaleBarTexture_update logging_gl ?miss)
       = (1, [(Some 0,
               \<lparr>canvas_width = NaN, canvas_height = Fin 32,
                calls =
                  [FillRect ''rgba(0, 0, 0, 0.3)'' (Fin 0) (Fin 0) NaN (Fin 32),
                   FillText ''bold 15px sans-serif'' ''center'' ''white''
                     ''undefined undefined'' NaN (Fin 17),
                   FillRect ''white'' (Fin 2) (Fin 22) NaN (Fin 8)]\<rparr>)])"
    unfolding 3 4 5 by (simp add: d u l g)
  with 1 3 4 show ?thesis by blast
qed

section \<open>Rounding to binary64\<close>

lemma round_half_even_error: "\<bar>of_int (round_half_even y) - y\<bar> \<le> 1 / 2"
  unfolding round_half_even_def Let_def by (auto; linarith)

lemma round_half_even_bounds:
  "\<lfloor>y\<rfloor> \<le> round_half_even y" "round_half_even y \<le> \<lfloor>y\<rfloor> + 1"
  unfolding round_half_even_def Let_def by auto

lemma round_half_even_of_int [simp]: "round_half_even (of_int k) = k"
  unfolding round_half_even_def Let_def by simp

lemma round_half_even_0 [simp]: "round_half_even 0 = 0"
  using round_half_even_of_int [of 0] by simp

lemma round64_Fin_eq:
  assumes "round64 x = Fin r"
  shows "r = of_int (round_half_even (x / 2 powr of_int (ulp_exponent x))) * 2 powr of_int (ulp_exponent x)"
  using assms unfolding round64_def Let_def signed_inf_def
  by (auto split: if_splits)

lemma powr_half: "(2::real) powr a / 2 = 2 powr (a - 1)"
  by (simp add: powr_diff)

lemma ulp_le:
  assumes "x \<noteq> 0"
  shows "2 powr of_int (ulp_exponent x) / 2 \<le> 2 powr (- 53) * \<bar>x\<bar> + 2 powr (- 1075)"
proof -
  let ?a = "\<lfloor>log 2 \<bar>x\<bar>\<rfloor>"
  have pos: "0 < \<bar>x\<bar>" using assms by simp
  have "of_int ?a \<le> log 2 \<bar>x\<bar>" by simp
  then have a: "2 powr of_int ?a \<le> \<bar>x\<bar>"
    using le_log_iff [of 2 "\<bar>x\<bar>" "of_int ?a"] pos by simp
  show ?thesis
  proof (cases "?a - 52 \<le> - 1074")
    case True
    then have "ulp_exponent x = - 1074" by (simp add: ulp_exponent_def)
    then have "(2::real) powr of_int (ulp_exponent x) / 2 = 2 powr (- 1075)"
      by (simp add: powr_half)
    then show ?thesis by simp
  next
    case False
    then have "ulp_exponent x = ?a - 52" by (simp add: ulp_exponent_def)
    then have "(2::real) powr of_int (ulp_exponent x) / 2 = 2 powr (of_int ?a + (- 53))"
      by (simp add: powr_half)
    also have "\<dots> = (2::real) powr of_int ?a * 2 powr (- 53)"
      by (rule powr_add)
    also have "\<dots> \<le> \<bar>x\<bar> * 2 powr (- 53)"
      using a by (intro mult_right_mono) simp_all
    finally have "2 powr of_int (ulp_exponent x) / 2 \<le> 2 powr (- 53) * \<bar>x\<bar>"
      by (simp add: mult.commute)
    moreover have "0 \<le> (2::real) powr (- 1075)" by simp
    ultimately show ?thesis by linarith
  qed
qed

text \<open>The error of a rounding that does not overflow: half a unit in the last place.\<close>

lemma round64_error:
  assumes "round64 x = Fin r"
  shows "\<bar>r - x\<bar> \<le> 2 powr (- 53) * \<bar>x\<bar> + 2 powr (- 1075)"
proof (cases "x = 0")
  case True
  with assms show ?thesis by (simp add: round64_def)
next
  case False
  let ?u = "2 powr of_int (ulp_exponent x) :: real"
  have u: "0 < ?u" by simp
  have r: "r = of_int (round_half_even (x / ?u)) * ?u"
    using round64_Fin_eq [OF assms] .
  have "r - x = (of_int (round_half_even (x / ?u)) - x / ?u) * ?u"
    using u by (simp add: r left_diff_distrib)
  then have "\<bar>r - x\<bar> = \<bar>of_int (round_half_even (x / ?u)) - x / ?u\<bar> * ?u"
    using u by (simp add: abs_mult)
  also have "\<dots> \<le> 1 / 2 * ?u"
    using round_half_even_error [of "x / ?u"] u by (intro mult_right_mono) simp_all
  also have "\<dots> \<le> 2 powr (- 53) * \<bar>x\<bar> + 2 powr (- 1075)"
    using ulp_le [OF False] by simp
  finally show ?thesis .
qed

lemma floor_log2_bounds:
  assumes "x \<noteq> 0"
  shows "2 powr of_int \<lfloor>log 2 \<bar>x\<bar>\<rfloor> \<le> \<bar>x\<bar>" and "\<bar>x\<bar> < 2 powr (of_int \<lfloor>log 2 \<bar>x\<bar>\<rfloor> + 1)"
  using floor_log_eq_powr_iff [of "\<bar>x\<bar>" 2 "\<lfloor>log 2 \<bar>x\<bar>\<rfloor>"] assms by simp_all

text \<open>A value with at most 53 significant bits above the smallest exponent is not rounded.\<close>

lemma round64_exact:
  assumes x: "x = of_int m * 2 powr of_int j" and m: "\<bar>m\<bar> < 2 ^ 53" and j: "- 1074 \<le> j"
    and fin: "\<bar>x\<bar> < 2 ^ 1024"
  shows "round64 x = Fin x"
proof (cases "x = 0")
  case True
  then show ?thesis by (simp add: round64_def)
next
  case False
  let ?e = "ulp_exponent x"
  have "\<bar>x\<bar> = of_int \<bar>m\<bar> * 2 powr of_int j"
    by (simp add: x abs_mult)
  also have "\<dots> < 2 ^ 53 * 2 powr of_int j"
  proof (rule mult_strict_right_mono)
    from m have "real_of_int \<bar>m\<bar> < real_of_int (2 ^ 53)" by (simp only: of_int_less_iff)
    then show "real_of_int \<bar>m\<bar> < 2 ^ 53" by simp
  qed simp
  also have "\<dots> = 2 powr (53 + of_int j)"
    by (simp add: powr_add)
  finally have "\<bar>x\<bar> < 2 powr (53 + of_int j)" .
  moreover from floor_log2_bounds(1) [OF False]
  have "2 powr of_int \<lfloor>log 2 \<bar>x\<bar>\<rfloor> \<le> \<bar>x\<bar>" .
  ultimately have "2 powr of_int \<lfloor>log 2 \<bar>x\<bar>\<rfloor> < (2::real) powr (53 + of_int j)"
    by linarith
  then have "real_of_int \<lfloor>log 2 \<bar>x\<bar>\<rfloor> < 53 + of_int j"
    by simp
  then have "\<lfloor>log 2 \<bar>x\<bar>\<rfloor> < 53 + j"
    by linarith
  with j have e: "?e \<le> j"
    by (simp add: ulp_exponent_def)
  define d where "d = nat (j - ?e)"
  have jd: "of_int j = of_int ?e + real d"
    using e by (simp add: d_def)
  have "2 powr of_int j / 2 powr of_int ?e = (2::real) powr (of_int j - of_int ?e)"
    by (simp only: powr_diff)
  also have "of_int j - of_int ?e = real d"
    using jd by simp
  finally have "2 powr of_int j / 2 powr of_int ?e = (2::real) powr real d" .
  moreover have "x / 2 powr of_int ?e = of_int m * (2 powr of_int j / 2 powr of_int ?e)"
    by (subst x) simp
  ultimately have "x / 2 powr of_int ?e = of_int m * 2 powr (real d)"
    by simp
  also have "\<dots> = of_int (m * 2 ^ d)"
    by (simp add: powr_realpow)
  finally have q: "x / 2 powr of_int ?e = of_int (m * 2 ^ d)" .
  have "of_int (round_half_even (x / 2 powr of_int ?e)) * 2 powr of_int ?e = x"
    unfolding q round_half_even_of_int
    using q by (simp add: field_simps)
  with False fin show ?thesis
    by (simp add: round64_def Let_def)
qed

lemma round64_of_int:
  assumes "\<bar>k\<bar> < 2 ^ 53"
  shows "round64 (of_int k) = Fin (of_int k)"
proof (rule round64_exact [of _ k 0])
  from assms have "real_of_int \<bar>k\<bar> < real_of_int (2 ^ 53)" by (simp only: of_int_less_iff)
  then have "\<bar>real_of_int k\<bar> < 2 ^ 53" by simp
  also have "\<dots> < (2::real) ^ 1024" by simp
  finally show "\<bar>real_of_int k\<bar> < 2 ^ 1024" .
qed (use assms in simp_all)

lemma powr2_less_cancel: "(2::real) powr a < 2 powr b \<Longrightarrow> a < b"
  by simp

lemma powr2_le_mono: "a \<le> b \<Longrightarrow> (2::real) powr a \<le> 2 powr b"
  by simp

text \<open>In the normal range the result is finite and positive.\<close>

lemma round64_normal:
  assumes lo: "2 powr (- 1022) \<le> x" and hi: "x < 2 powr 1023"
  shows "\<exists>r. round64 x = Fin r \<and> 0 < r"
proof -
  have pos: "0 < x" using lo by (smt (verit) powr_gt_zero)
  let ?a = "\<lfloor>log 2 \<bar>x\<bar>\<rfloor>"
  let ?u = "2 powr of_int (ulp_exponent x) :: real"
  have ax: "2 powr of_int ?a \<le> x" "x < 2 powr (of_int ?a + 1)"
    using floor_log2_bounds [of x] pos by simp_all
  from lo ax(2) have "(2::real) powr (- 1022) < 2 powr (of_int ?a + 1)" by linarith
  then have "- 1022 < real_of_int ?a + 1"
    by (rule powr2_less_cancel)
  then have a_lo: "- 1022 \<le> ?a" by linarith
  from hi ax(1) have "(2::real) powr of_int ?a < 2 powr 1023" by linarith
  then have "real_of_int ?a < 1023"
    by (rule powr2_less_cancel)
  then have a_hi: "?a \<le> 1022" by linarith
  from a_lo have "- 1074 \<le> ?a - 52" by linarith
  then have e: "ulp_exponent x = ?a - 52"
    unfolding ulp_exponent_def by (rule max_absorb1)
  have u: "?u = 2 powr of_int ?a / 2 ^ 52"
    by (simp add: e powr_diff)
  have upos: "0 < ?u" by simp
  let ?k = "round_half_even (x / ?u)"
  have "2 ^ 52 \<le> x / ?u"
    using ax(1) by (simp add: u field_simps)
  then have "2 ^ 52 \<le> \<lfloor>x / ?u\<rfloor>"
    by (simp add: le_floor_iff)
  with round_half_even_bounds(1) [of "x / ?u"] have k_lo: "2 ^ 52 \<le> ?k" by linarith
  have "x / ?u < 2 ^ 53"
    using ax(2) by (simp add: u powr_add field_simps)
  then have "\<lfloor>x / ?u\<rfloor> < 2 ^ 53"
    by (simp add: floor_less_iff)
  with round_half_even_bounds(2) [of "x / ?u"] have k_hi: "?k \<le> 2 ^ 53" by linarith
  let ?r = "of_int ?k * ?u"
  have rpos: "0 < ?r"
    using k_lo upos by (intro mult_pos_pos) simp_all
  have "real_of_int ?k \<le> 2 ^ 53"
    using k_hi by (metis of_int_le_iff of_int_numeral of_int_power)
  then have "?r \<le> 2 ^ 53 * ?u"
    using upos by (intro mult_right_mono) simp_all
  also have "\<dots> = 2 powr (of_int ?a + 1)"
    by (simp add: u powr_add)
  also have "\<dots> \<le> 2 powr 1023"
  proof (rule powr2_le_mono)
    from a_hi show "real_of_int ?a + 1 \<le> 1023" by linarith
  qed
  also have "\<dots> < (2::real) ^ 1024"
    by simp
  finally have "\<bar>?r\<bar> < 2 ^ 1024" using rpos by simp
  with pos rpos show ?thesis
    by (simp add: round64_def Let_def)
qed

lemma round64_overflow: "round64 (2 ^ 1200) = PInf"
proof -
  have l: "\<lfloor>log 2 \<bar>2 ^ 1200 :: real\<bar>\<rfloor> = 1200"
    by (subst floor_log_eq_powr_iff) (simp_all add: powr_numeral del: power_numeral)
  have e: "ulp_exponent (2 ^ 1200) = 1148"
    unfolding ulp_exponent_def l by simp
  have "(2::real) ^ 1200 / 2 powr 1148 = 2 ^ 52"
    by (simp add: powr_numeral)
  then have q: "(2::real) ^ 1200 / 2 powr of_int 1148 = of_int (2 ^ 52)" by simp
  have r: "of_int (round_half_even ((2::real) ^ 1200 / 2 powr of_int (ulp_exponent (2 ^ 1200))))
             * 2 powr of_int (ulp_exponent (2 ^ 1200)) = (2::real) ^ 1200"
    unfolding e q round_half_even_of_int by (simp add: powr_numeral)
  show ?thesis
    unfolding round64_def Let_def r by (simp add: signed_inf_def)
qed

section \<open>Constants in binary64\<close>

lemma ln10_bounds: "1 \<le> ln (10::real)" "ln (10::real) \<le> 9"
proof -
  have "exp 1 \<le> (10::real)" using exp_le by linarith
  then show "1 \<le> ln (10::real)" by (simp add: ln_ge_iff)
  show "ln (10::real) \<le> 9" using ln_le_minus_one [of "10::real"] by simp
qed

lemma Math_LN10_64_pos: "\<exists>c. Math_LN10_64 = Fin c \<and> 0 < c"
  unfolding Math_LN10_64_def
proof (rule round64_normal)
  have "(2::real) powr (- 1022) \<le> 2 powr 0" by (rule powr2_le_mono) simp
  with ln10_bounds(1) show "2 powr (- 1022) \<le> ln (10::real)" by simp
  have "(2::real) powr 4 \<le> 2 powr 1023" by (rule powr2_le_mono) simp
  moreover have "(9::real) < 2 powr 4" by simp
  ultimately show "ln (10::real) < 2 powr 1023" using ln10_bounds(2) by linarith
qed

lemma round64_table:
  "round64 1000000000000 = Fin 1000000000000"
  "round64 1000000000 = Fin 1000000000"
  "round64 1000000 = Fin 1000000"
  "round64 1000 = Fin 1000"
  "round64 1 = Fin 1"
  using round64_of_int [of 1000000000000] round64_of_int [of 1000000000]
    round64_of_int [of 1000000] round64_of_int [of 1000] round64_of_int [of 1]
  by simp_all

lemma round64_milli: "\<exists>r. round64 (1 / 1000) = Fin r \<and> 0 < r"
proof (rule round64_normal)
  have "(2::real) powr (- 1022) \<le> 2 powr (- 10)" by (rule powr2_le_mono) simp
  also have "\<dots> = 1 / 2 ^ 10" by (simp add: powr_minus_divide)
  also have "\<dots> \<le> 1 / 1000" by simp
  finally show "(2::real) powr (- 1022) \<le> 1 / 1000" .
  have "(2::real) powr 0 \<le> 2 powr 1023" by (rule powr2_le_mono) simp
  then show "(1::real) / 1000 < 2 powr 1023" by simp
qed

lemma ALLOWED_UNITS64_positive:
  assumes "u \<in> set ALLOWED_UNITS64"
  shows "\<exists>U. 0 < U \<and> lengthInNanometers u = Fin U"
  using assms round64_milli
  by (auto simp: ALLOWED_UNITS64_def ALLOWED_UNITS_def round64_table)

lemma pickLengthUnit64_member: "pickLengthUnit64 x \<in> set ALLOWED_UNITS64"
  by (simp add: pickLengthUnit64_def ALLOWED_UNITS64_def ALLOWED_UNITS_def)

section \<open>The round trip in binary64\<close>

lemma rnd_Fin_D: "rnd x = Fin r \<Longrightarrow> \<exists>y. x = Fin y \<and> round64 y = Fin r"
  by (cases x) simp_all

lemma js_div_Fin_D:
  assumes "js_div x (Fin n) = Fin q" and "0 < n"
  shows "\<exists>N. x = Fin N \<and> q = N / n"
  using assms by (cases x) (auto simp: signed_inf_def split: if_splits)

lemma Math_round_Fin_D: "Math_round x = Fin L \<Longrightarrow> \<exists>q. x = Fin q \<and> L = of_int \<lfloor>q + 1 / 2\<rfloor>"
  by (cases x) auto

lemma div64_Fin_D:
  assumes "div64 x (Fin n) = Fin q" and "0 < n"
  shows "\<exists>N. x = Fin N \<and> round64 (N / n) = Fin q"
proof -
  from assms(1) obtain y where y: "js_div x (Fin n) = Fin y" "round64 y = Fin q"
    unfolding div64_def using rnd_Fin_D by blast
  from js_div_Fin_D [OF y(1) assms(2)] y(2) show ?thesis by blast
qed

text \<open>
  Claim C1, amended. For finite positive inputs, after \<^verbatim>\<open>update()\<close> has returned true
  with a finite \<^verbatim>\<open>lengthInPixels\<close> \<open>L\<close> and a finite \<^verbatim>\<open>physicalLength\<close> \<open>P\<close>, whatever
  the allowed significands are and whatever \<^verbatim>\<open>Math.log\<close> and \<^verbatim>\<open>Math.pow\<close> return:
  \<^verbatim>\<open>physicalNanometers\<close> is a finite \<open>N\<close>, the unit is one of the table with a length
  \<open>U\<close>, and \<open>L * n\<close> differs from \<open>P * U\<close> (as real numbers) by at most half a pixel
  plus the rounding of the two divisions: \<open>n / 2 + 2\<^sup>-\<^sup>5\<^sup>2 |N| + 2\<^sup>-\<^sup>1\<^sup>0\<^sup>7\<^sup>5 (n + U)\<close>.
\<close>

theorem round_trip64:
  assumes "targetLengthInPixels s = Fin t" and "nanometersPerPixel s = Fin n"
    and "0 < t" and "0 < n" and "fst (update64 M s) = True"
    and "lengthInPixels (snd (update64 M s)) = Some (Fin L)"
    and "physicalLength (snd (update64 M s)) = Some (Fin P)"
  shows "\<exists>N u U. physicalNanometers64 M s = Fin N
           \<and> u \<in> set ALLOWED_UNITS64
           \<and> physicalUnit (snd (update64 M s)) = Some (unit u)
           \<and> lengthInNanometers u = Fin U \<and> 0 < U
           \<and> \<bar>L * n - P * U\<bar> \<le> n / 2 + 2 powr (- 52) * \<bar>N\<bar> + 2 powr (- 1075) * (n + U)"
proof -
  let ?N = "physicalNanometers64 M s"
  let ?u = "pickLengthUnit64 ?N"
  from assms(5) have changed: "\<not> inputsUnchanged s"
    by (auto simp: update64_def split: if_splits)
  have out: "lengthInPixels (snd (update64 M s)) = Some (Math_round (div64 ?N (Fin n)))"
    "physicalLength (snd (update64 M s)) = Some (div64 ?N (lengthInNanometers ?u))"
    "physicalUnit (snd (update64 M s)) = Some (unit ?u)"
    using changed by (simp_all add: update64_def Let_def assms(2))
  obtain U where U: "0 < U" "lengthInNanometers ?u = Fin U"
    using ALLOWED_UNITS64_positive [OF pickLengthUnit64_member] by blast
  from out(1) assms(6) have "Math_round (div64 ?N (Fin n)) = Fin L" by simp
  then obtain q where q: "div64 ?N (Fin n) = Fin q" "L = of_int \<lfloor>q + 1 / 2\<rfloor>"
    using Math_round_Fin_D by blast
  from div64_Fin_D [OF q(1) assms(4)] obtain N where N: "?N = Fin N" "round64 (N / n) = Fin q"
    by blast
  from out(2) assms(7) have "div64 ?N (lengthInNanometers ?u) = Fin P" by simp
  moreover have "lengthInNanometers (pickLengthUnit64 (Fin N)) = Fin U"
    using U(2) unfolding N(1) .
  ultimately have "div64 (Fin N) (Fin U) = Fin P" by (simp add: N(1))
  from div64_Fin_D [OF this U(1)] have P: "round64 (N / U) = Fin P" by simp
  define eps where "eps = (2::real) powr (- 53)"
  define del where "del = (2::real) powr (- 1075)"
  have eps2: "2 * eps = 2 powr (- 52)"
    unfolding eps_def using powr_half [of "- 52"] by simp
  have e1: "\<bar>q - N / n\<bar> \<le> eps * \<bar>N / n\<bar> + del"
    using round64_error [OF N(2)] by (simp add: eps_def del_def)
  have e2: "\<bar>P - N / U\<bar> \<le> eps * \<bar>N / U\<bar> + del"
    using round64_error [OF P] by (simp add: eps_def del_def)
  have e3: "\<bar>L - q\<bar> \<le> 1 / 2"
    unfolding q(2) by linarith
  have a1: "\<bar>q * n - N\<bar> \<le> eps * \<bar>N\<bar> + del * n"
  proof -
    have "q * n - N = (q - N / n) * n" using assms(4) by (simp add: left_diff_distrib)
    then have "\<bar>q * n - N\<bar> = \<bar>q - N / n\<bar> * n" using assms(4) by (simp add: abs_mult)
    also have "\<dots> \<le> (eps * \<bar>N / n\<bar> + del) * n"
      using e1 assms(4) by (intro mult_right_mono) simp_all
    also have "\<dots> = eps * \<bar>N\<bar> + del * n"
      using assms(4) by (simp add: distrib_right abs_divide)
    finally show ?thesis .
  qed
  have a2: "\<bar>P * U - N\<bar> \<le> eps * \<bar>N\<bar> + del * U"
  proof -
    have "P * U - N = (P - N / U) * U" using U(1) by (simp add: left_diff_distrib)
    then have "\<bar>P * U - N\<bar> = \<bar>P - N / U\<bar> * U" using U(1) by (simp add: abs_mult)
    also have "\<dots> \<le> (eps * \<bar>N / U\<bar> + del) * U"
      using e2 U(1) by (intro mult_right_mono) simp_all
    also have "\<dots> = eps * \<bar>N\<bar> + del * U"
      using U(1) by (simp add: distrib_right abs_divide)
    finally show ?thesis .
  qed
  have a3: "\<bar>L * n - q * n\<bar> \<le> n / 2"
  proof -
    have "\<bar>L * n - q * n\<bar> = \<bar>L - q\<bar> * n"
      using assms(4) by (simp add: left_diff_distrib [symmetric] abs_mult)
    also have "\<dots> \<le> 1 / 2 * n" using e3 assms(4) by (intro mult_right_mono) simp_all
    finally show ?thesis by simp
  qed
  have "\<bar>L * n - P * U\<bar> \<le> \<bar>L * n - q * n\<bar> + \<bar>q * n - N\<bar> + \<bar>P * U - N\<bar>"
    by linarith
  also have "\<dots> \<le> n / 2 + (eps * \<bar>N\<bar> + del * n) + (eps * \<bar>N\<bar> + del * U)"
    using a1 a2 a3 by linarith
  also have "\<dots> = n / 2 + 2 * eps * \<bar>N\<bar> + del * (n + U)"
    by (simp add: algebra_simps)
  finally have "\<bar>L * n - P * U\<bar> \<le> n / 2 + 2 powr (- 52) * \<bar>N\<bar> + 2 powr (- 1075) * (n + U)"
    unfolding eps2 del_def .
  with N(1) U out(3) pickLengthUnit64_member [of ?N] show ?thesis by blast
qed

lemma sub64_NaN [simp]: "sub64 x NaN = NaN"
  by (simp add: sub64_def)

lemma closestSignificand64_NaN [simp]: "closestSignificand64 as b NaN = b"
  by (cases as) simp_all

lemma round64_0 [simp]: "round64 0 = Fin 0"
  by (simp add: round64_def)

lemma round64_half: "round64 (1 / 2) = Fin (1 / 2)"
  using round64_exact [of "1 / 2" 1 "- 1"] by (simp add: powr_minus_divide)

lemma pickLengthUnit64_PInf:
  "pickLengthUnit64 PInf = \<lparr>unit = ''km'', lengthInNanometers = Fin 1000000000000\<rparr>"
  by (simp add: pickLengthUnit64_def ALLOWED_UNITS64_def ALLOWED_UNITS_def round64_table)

lemma pickLengthUnit64_one:
  "pickLengthUnit64 (Fin 1) = \<lparr>unit = ''nm'', lengthInNanometers = Fin 1\<rparr>"
  by (simp add: pickLengthUnit64_def ALLOWED_UNITS64_def ALLOWED_UNITS_def round64_table)

lemma overflow_values:
  "targetNanometers64 overflow_input = PInf"
  "exponent64 M overflow_input = PInf"
  "tenToThePowerExponent64 M overflow_input = PInf"
  "targetSignificand64 M overflow_input = NaN"
  "bestSignificand64 M overflow_input = Fin 1"
  "physicalNanometers64 M overflow_input = PInf"
proof -
  have "(2::real) ^ 600 * 2 ^ 600 = 2 ^ 1200" by (simp add: power_add [symmetric])
  then show 1: "targetNanometers64 overflow_input = PInf"
    by (simp add: targetNanometers64_def overflow_input_def mul64_def round64_overflow
          del: power_numeral)
  obtain c where c: "Math_LN10_64 = Fin c" "0 < c" using Math_LN10_64_pos by blast
  show 2: "exponent64 M overflow_input = PInf"
    using c(2) by (simp add: exponent64_def 1 Math_log64_def div64_def signed_inf_def c(1))
  show 3: "tenToThePowerExponent64 M overflow_input = PInf"
    by (simp add: tenToThePowerExponent64_def 2 Math_pow10_64_def)
  show 4: "targetSignificand64 M overflow_input = NaN"
    by (simp add: targetSignificand64_def 1 3 div64_def)
  show 5: "bestSignificand64 M overflow_input = Fin 1"
    by (simp add: bestSignificand64_def 4)
  show "physicalNanometers64 M overflow_input = PInf"
    by (simp add: physicalNanometers64_def 3 5 mul64_def signed_inf_def)
qed

text \<open>
  Claim C1, as stated: for all finite positive inputs the outputs are consistent within
  half a pixel. With \<open>2\<^sup>6\<^sup>0\<^sup>0\<close> pixels of \<open>2\<^sup>6\<^sup>0\<^sup>0\<close> nm the product overflows:
  \<^verbatim>\<open>update()\<close> returns true with \<^verbatim>\<open>lengthInPixels\<close> and \<^verbatim>\<open>physicalLength\<close> both
  \<open>+Infinity\<close> in km, and the difference of the two sides is \<open>NaN\<close>.
\<close>

theorem round_trip_overflow_counterexample:
  "update64 correctly_rounded overflow_input =
     (True, overflow_input\<lparr>prevNanometersPerPixel := Fin (2 ^ 600),
        prevTargetLengthInPixels := Fin (2 ^ 600),
        lengthInPixels := Some PInf, physicalUnit := Some ''km'',
        physicalLength := Some PInf\<rparr>)
   \<and> js_sub (js_mul PInf (Fin (2 ^ 600))) (js_mul PInf (Fin 1000000000000)) = NaN"
proof -
  have u: "\<not> inputsUnchanged overflow_input"
    by (simp add: inputsUnchanged_def overflow_input_def new_ScaleBarDimensions_def)
  have i: "nanometersPerPixel overflow_input = Fin (2 ^ 600)"
    "targetLengthInPixels overflow_input = Fin (2 ^ 600)"
    by (simp_all add: overflow_input_def)
  have "update64 correctly_rounded overflow_input =
     (True, overflow_input\<lparr>prevNanometersPerPixel := Fin (2 ^ 600),
        prevTargetLengthInPixels := Fin (2 ^ 600),
        lengthInPixels := Some PInf, physicalUnit := Some ''km'',
        physicalLength := Some PInf\<rparr>)"
    by (simp add: update64_def u i overflow_values pickLengthUnit64_PInf div64_def signed_inf_def
          del: power_numeral)
  moreover have "js_sub (js_mul PInf (Fin (2 ^ 600))) (js_mul PInf (Fin 1000000000000)) = NaN"
    by (simp add: js_sub_def signed_inf_def)
  ultimately show ?thesis by blast
qed

lemma unit_values:
  "targetNanometers64 unit_input = Fin 1"
  "exponent64 M unit_input = Fin 0"
  "tenToThePowerExponent64 M unit_input = Fin 1"
  "targetSignificand64 M unit_input = Fin 1"
  "bestSignificand64 M unit_input = Fin 1"
  "physicalNanometers64 M unit_input = Fin 1"
proof -
  show 1: "targetNanometers64 unit_input = Fin 1"
    by (simp add: targetNanometers64_def unit_input_def mul64_def round64_table)
  obtain c where c: "Math_LN10_64 = Fin c" "0 < c" using Math_LN10_64_pos by blast
  show 2: "exponent64 M unit_input = Fin 0"
    using c(2) by (simp add: exponent64_def 1 Math_log64_def div64_def c(1))
  show 3: "tenToThePowerExponent64 M unit_input = Fin 1"
    by (simp add: tenToThePowerExponent64_def 2 Math_pow10_64_def)
  show 4: "targetSignificand64 M unit_input = Fin 1"
    by (simp add: targetSignificand64_def 1 3 div64_def round64_table)
  have "allowedSignificands unit_input = DEFAULT_ALLOWED_SIGNIFICANDS"
    by (simp add: unit_input_def new_ScaleBarDimensions_def)
  then show 5: "bestSignificand64 M unit_input = Fin 1"
    by (simp add: bestSignificand64_def 4 DEFAULT_ALLOWED_SIGNIFICANDS_def sub64_def js_sub_def
          round64_half)
  show "physicalNanometers64 M unit_input = Fin 1"
    by (simp add: physicalNanometers64_def 3 5 mul64_def round64_table)
qed

lemma update64_unit_input:
  "update64 M unit_input =
     (True, unit_input\<lparr>prevNanometersPerPixel := Fin 1, prevTargetLengthInPixels := Fin 1,
        lengthInPixels := Some (Fin 1), physicalUnit := Some ''nm'',
        physicalLength := Some (Fin 1)\<rparr>)"
proof -
  have u: "\<not> inputsUnchanged unit_input"
    by (simp add: inputsUnchanged_def unit_input_def new_ScaleBarDimensions_def)
  have i: "nanometersPerPixel unit_input = Fin 1" "targetLengthInPixels unit_input = Fin 1"
    by (simp_all add: unit_input_def)
  show ?thesis
    by (simp add: update64_def u i unit_values pickLengthUnit64_one div64_def round64_table)
qed

theorem round_trip64_witness:
  "fst (update64 correctly_rounded unit_input) = True
   \<and> lengthInPixels (snd (update64 correctly_rounded unit_input)) = Some (Fin 1)
   \<and> physicalLength (snd (update64 correctly_rounded unit_input)) = Some (Fin 1)
   \<and> (\<exists>N u U. physicalNanometers64 correctly_rounded unit_input = Fin N
           \<and> u \<in> set ALLOWED_UNITS64
           \<and> physicalUnit (snd (update64 correctly_rounded unit_input)) = Some (unit u)
           \<and> lengthInNanometers u = Fin U \<and> 0 < U
           \<and> \<bar>1 * 1 - 1 * U\<bar> \<le> 1 / 2 + 2 powr (- 52) * \<bar>N\<bar> + 2 powr (- 1075) * (1 + U))"
proof -
  have a: "targetLengthInPixels unit_input = Fin 1" "nanometersPerPixel unit_input = Fin 1"
    by (simp_all add: unit_input_def)
  have p: "0 < (1::real)" by simp
  have c: "fst (update64 correctly_rounded unit_input) = True"
    "lengthInPixels (snd (update64 correctly_rounded unit_input)) = Some (Fin 1)"
    "physicalLength (snd (update64 correctly_rounded unit_input)) = Some (Fin 1)"
    by (simp_all add: update64_unit_input)
  from round_trip64 [OF a p p c] c show ?thesis by blast
qed

section \<open>More on rounding\<close>




section \<open>An accurate library\<close>




section \<open>The scan under rounding\<close>


section \<open>The exponent in binary64\<close>

lemma two_powr_neg: "(2::real) powr (- real n) = 1 / 2 ^ n"
  by (simp add: powr_minus_divide powr_realpow)








section \<open>Significand and physical length in binary64\<close>






section \<open>Quantization in binary64\<close>




end
